theory Spec2Isabelle
  imports Complex_Main "HOL-Library.Multiset"
begin

section \<open>Configuration (config/settings.py)\<close>

text \<open>
  Python floats are modelled as \<^typ>\<open>real\<close>: the arithmetic of the pipeline is read as exact
  arithmetic, so rounding, NaN and infinities are outside the model. Python's unbounded
  integers are \<^typ>\<open>int\<close>, list lengths are \<^typ>\<open>nat\<close>.
\<close>

definition MAX_CLUSTERS :: nat where
  "MAX_CLUSTERS = 3"

definition MIN_PAPERS_FOR_CLUSTERING :: nat where
  "MIN_PAPERS_FOR_CLUSTERING = 4"

definition HIGH_CONFIDENCE_THRESHOLD :: real where
  "HIGH_CONFIDENCE_THRESHOLD = 7 / 10"

definition MEDIUM_CONFIDENCE_THRESHOLD :: real where
  "MEDIUM_CONFIDENCE_THRESHOLD = 5 / 10"

definition RECENT_YEAR_THRESHOLD :: int where
  "RECENT_YEAR_THRESHOLD = 2020"

definition STRONG_POSITIVE_THRESHOLD :: real where
  "STRONG_POSITIVE_THRESHOLD = 70"

definition MODERATE_POSITIVE_THRESHOLD :: real where
  "MODERATE_POSITIVE_THRESHOLD = 55"

definition MODERATE_NEGATIVE_THRESHOLD :: real where
  "MODERATE_NEGATIVE_THRESHOLD = 45"

definition STRONG_NEGATIVE_THRESHOLD :: real where
  "STRONG_NEGATIVE_THRESHOLD = 30"

definition POSITIVE_INDICATORS :: "string list" where
  "POSITIVE_INDICATORS =
     [''effective'', ''improves'', ''increases'', ''beneficial'', ''positive'', ''significantly'',
      ''reduces'', ''decreases'', ''prevents'', ''enhances'', ''better'', ''successful'',
      ''improvement'', ''correlation'', ''associated with'', ''leads to'']"

definition NEGATIVE_INDICATORS :: "string list" where
  "NEGATIVE_INDICATORS =
     [''ineffective'', ''no effect'', ''no difference'', ''harmful'', ''negative'',
      ''worse'', ''fails'', ''unsuccessful'', ''no significant'', ''not significant'',
      ''no improvement'', ''no correlation'', ''unrelated'']"


section \<open>The paper record (models/paper.py)\<close>

text \<open>
  The dataclass \<open>Paper\<close>. The annotation of \<open>citation_count\<close> is \<open>int\<close>, but a
  dataclass does not enforce it and the fetch adapter stores
  \<open>paper_data.get('citationCount', 0)\<close>, which is \<open>None\<close> when the response holds a null
  there (\<open>year\<close>, by contrast, is stored as \<open>paper_data.get('year') or 0\<close>). The field is
  therefore an \<^typ>\<open>int option\<close>; \<open>Some c\<close> is the annotated case.
\<close>

record paper =
  title :: string
  authors :: "string list"
  year :: int
  abstract :: string
  url :: string
  doi :: "string option"
  venue :: "string option"
  citation_count :: "int option"
  paper_id :: "string option"
  pdf_url :: "string option"
  tldr :: "string option"
  fields_of_study :: "string list"
  influential_citation_count :: "int option"
  ml_relevance_score :: real
  ml_cluster :: int
  ml_summary_confidence :: real

text \<open>\<open>Paper.__post_init__\<close>: the two scores are clamped when a paper is constructed.\<close>

definition post_init :: "paper \<Rightarrow> paper" where
  "post_init p =
     p\<lparr>ml_relevance_score := max 0 (min 1 (ml_relevance_score p)),
       ml_summary_confidence := max 0 (min 1 (ml_summary_confidence p))\<rparr>"

text \<open>The bibliographic part of a paper: everything but the three derived attributes.\<close>

definition bibliographic :: "paper \<Rightarrow> paper" where
  "bibliographic p = p\<lparr>ml_relevance_score := 0, ml_cluster := - 1, ml_summary_confidence := 0\<rparr>"


section \<open>Python and library primitives\<close>

datatype py_exception = TypeError | IndexError | ValueError

text \<open>\<open>sep.join(xs)\<close>\<close>

fun join :: "string \<Rightarrow> string list \<Rightarrow> string" where
  "join sep [] = []"
| "join sep [x] = x"
| "join sep (x # y # ys) = x @ sep @ join sep (y # ys)"

text \<open>\<open>str.lower()\<close> on the ASCII letters; every other character is kept.\<close>

definition lower_char :: "char \<Rightarrow> char" where
  "lower_char c =
     (let n = (of_char c :: nat) in if 65 \<le> n \<and> n \<le> 90 then char_of (n + 32) else c)"

definition lower :: "string \<Rightarrow> string" where
  "lower s = map lower_char s"

text \<open>\<open>s.startswith(t)\<close> and the substring test \<open>t in s\<close>.\<close>

fun startswith :: "string \<Rightarrow> string \<Rightarrow> bool" where
  "startswith s [] = True"
| "startswith [] (c # t) = False"
| "startswith (d # s) (c # t) = (d = c \<and> startswith s t)"

fun py_in :: "string \<Rightarrow> string \<Rightarrow> bool" where
  "py_in t [] = (t = [])"
| "py_in t (c # s) = (startswith (c # s) t \<or> py_in t s)"

text \<open>\<open>np.mean\<close> of a non-empty sequence.\<close>

definition np_mean :: "real list \<Rightarrow> real" where
  "np_mean xs = sum_list xs / real (length xs)"

text \<open>
  \<open>round(x, ndigits)\<close>: to the nearest multiple of \<open>10 ^ -ndigits\<close>, a tie to the even one.
\<close>

definition py_round :: "real \<Rightarrow> nat \<Rightarrow> real" where
  "py_round x ndigits =
     (let y = x * 10 ^ ndigits; f = \<lfloor>y\<rfloor>; d = y - of_int f
      in of_int (if d < 1 / 2 then f else if 1 / 2 < d then f + 1
                 else if even f then f else f + 1) / 10 ^ ndigits)"

text \<open>
  \<open>list.sort(key=key, reverse=True)\<close>. CPython reverses the list, sorts it stably in
  ascending key order and reverses the result; \<^const>\<open>sort_key\<close> is a stable ascending sort.
\<close>

definition sort_reverse :: "('a \<Rightarrow> real) \<Rightarrow> 'a list \<Rightarrow> 'a list" where
  "sort_reverse key xs = rev (sort_key key (rev xs))"

text \<open>
  The scikit-learn calls of \<open>process_papers\<close> are not code of the repository; they are
  parameters of the model. Each may raise. A row of the TF-IDF matrix is a value of the
  type \<open>'v\<close>. \<open>KMeans\<close> is called with \<open>random_state=42\<close>, which makes it a function of its
  arguments.
\<close>

record 'v sklearn =
  fit_transform :: "string list \<Rightarrow> py_exception + 'v list"
  cosine_similarity :: "'v list \<Rightarrow> 'v \<Rightarrow> py_exception + real list"
  kmeans_fit_predict :: "nat \<Rightarrow> 'v list \<Rightarrow> py_exception + int list"


section \<open>The paper processor (services/ml_processor.py)\<close>

text \<open>
  The fields of \<open>MLPaperProcessor\<close> that \<open>process_papers\<close> writes. \<open>calls\<close> is a ghost
  field: the library calls made so far, in order, kept so that "is not invoked" can be
  stated.
\<close>

datatype call = FitTransform | CosineSimilarity | KMeansFitPredict

record 'v processor =
  paper_vectors :: "'v list option"
  papers_data :: "paper list"
  calls :: "call list"

text \<open>The text of one paper: title, abstract and, when present, the fields of study.\<close>

definition paper_text :: "paper \<Rightarrow> string" where
  "paper_text p =
     (let text = title p @ '' '' @ abstract p
      in if fields_of_study p \<noteq> [] then text @ '' '' @ join '' '' (fields_of_study p) else text)"

text \<open>
  The list \<open>confidence_factors\<close> of one paper. \<open>paper.citation_count / 100\<close> raises
  \<open>TypeError\<close> on \<open>None\<close>.
\<close>

definition confidence_factors :: "real \<Rightarrow> paper \<Rightarrow> py_exception + real list" where
  "confidence_factors similarity p =
     (case citation_count p of
        None \<Rightarrow> Inl TypeError
      | Some c \<Rightarrow>
          Inr [similarity,
               min (real_of_int c / 100) 1,
               if abstract p \<noteq> [] \<and> length (abstract p) > 100 then 1 else 5 / 10,
               if year p \<ge> 2015 then 1 else 7 / 10])"

text \<open>The body of the loop \<open>for i, paper in enumerate(papers)\<close>, for the paper at index \<open>i\<close>.\<close>

definition update_paper :: "real list \<Rightarrow> int list \<Rightarrow> nat \<Rightarrow> paper \<Rightarrow> py_exception + paper" where
  "update_paper similarities clusters i p =
     (if length similarities \<le> i then Inl IndexError
      else if length clusters \<le> i then Inl IndexError
      else case confidence_factors (similarities ! i) p of
             Inl e \<Rightarrow> Inl e
           | Inr factors \<Rightarrow>
               Inr (p\<lparr>ml_relevance_score := similarities ! i,
                      ml_cluster := clusters ! i,
                      ml_summary_confidence := np_mean factors\<rparr>))"

fun update_papers :: "real list \<Rightarrow> int list \<Rightarrow> nat \<Rightarrow> paper list \<Rightarrow> py_exception + paper list" where
  "update_papers similarities clusters i [] = Inr []"
| "update_papers similarities clusters i (p # ps) =
     (case update_paper similarities clusters i p of
        Inl e \<Rightarrow> Inl e
      | Inr p' \<Rightarrow>
          (case update_papers similarities clusters (Suc i) ps of
             Inl e \<Rightarrow> Inl e
           | Inr ps' \<Rightarrow> Inr (p' # ps')))"

text \<open>
  The \<open>try\<close> block of \<open>process_papers\<close>: the papers ranked, or the exception raised,
  together with the processor as the block leaves it.
\<close>

definition process_try ::
  "'v sklearn \<Rightarrow> 'v processor \<Rightarrow> paper list \<Rightarrow> string \<Rightarrow> (py_exception + paper list) \<times> 'v processor" where
  "process_try sk st papers query =
     (let paper_texts = map paper_text papers @ [query];
          st1 = st\<lparr>calls := calls st @ [FitTransform]\<rparr>
      in case fit_transform sk paper_texts of
           Inl e \<Rightarrow> (Inl e, st1)
         | Inr m \<Rightarrow>
            (let st2 = st1\<lparr>paper_vectors := Some m\<rparr>
             in if m = [] then (Inl IndexError, st2)
                else
                 (let query_vector = last m;
                      paper_vectors_only = butlast m;
                      st3 = st2\<lparr>calls := calls st2 @ [CosineSimilarity]\<rparr>
                  in case cosine_similarity sk paper_vectors_only query_vector of
                       Inl e \<Rightarrow> (Inl e, st3)
                     | Inr similarities \<Rightarrow>
                        (let (fitted, st4) =
                               (if length papers > MIN_PAPERS_FOR_CLUSTERING
                                then (kmeans_fit_predict sk (min MAX_CLUSTERS (length papers))
                                        paper_vectors_only,
                                      st3\<lparr>calls := calls st3 @ [KMeansFitPredict]\<rparr>)
                                else (Inr (replicate (length papers) 0), st3))
                         in case fitted of
                              Inl e \<Rightarrow> (Inl e, st4)
                            | Inr clusters \<Rightarrow>
                               (case update_papers similarities clusters 0 papers of
                                  Inl e \<Rightarrow> (Inl e, st4)
                                | Inr updated \<Rightarrow>
                                   (let ranked = sort_reverse ml_relevance_score updated
                                    in (Inr ranked, st4\<lparr>papers_data := ranked\<rparr>)))))))"

text \<open>The \<open>except\<close> block: every paper gets the default scores, in the order of the input.\<close>

definition default_scores :: "paper \<Rightarrow> paper" where
  "default_scores p =
     p\<lparr>ml_relevance_score := 5 / 10, ml_cluster := 0, ml_summary_confidence := 5 / 10\<rparr>"

definition process_papers ::
  "'v sklearn \<Rightarrow> 'v processor \<Rightarrow> paper list \<Rightarrow> string \<Rightarrow> paper list \<times> 'v processor" where
  "process_papers sk st papers query =
     (if papers = [] then (papers, st)
      else case process_try sk st papers query of
             (Inr ranked, st') \<Rightarrow> (ranked, st')
           | (Inl e, st') \<Rightarrow> (map default_scores papers, st'))"


section \<open>The consensus (services/summarization_service.py)\<close>

text \<open>
  \<open>_ml_sentiment_analysis\<close>. The key terms of the question are extracted there and never
  used; they are left out.
\<close>

definition indicator_score :: "string list \<Rightarrow> string \<Rightarrow> int" where
  "indicator_score indicators abstract_lower =
     sum_list (map (\<lambda>indicator. if py_in indicator abstract_lower then 2 else 0) indicators)"

definition ml_sentiment_analysis :: "paper \<Rightarrow> string \<Rightarrow> py_exception + real" where
  "ml_sentiment_analysis p research_question =
     (let abstract_lower = lower (abstract p);
          positive_score = indicator_score POSITIVE_INDICATORS abstract_lower;
          negative_score = indicator_score NEGATIVE_INDICATORS abstract_lower;
          relevance_boost = ml_relevance_score p
      in case citation_count p of
           None \<Rightarrow> Inl TypeError
         | Some c \<Rightarrow>
            (let citation_boost = min (real_of_int c / 100) 1;
                 final_score =
                   real_of_int (positive_score - negative_score) * relevance_boost
                     * (1 + citation_boost)
             in Inr (tanh (final_score / 10))))"

text \<open>The loop over the papers that fills \<open>positive_scores\<close> and \<open>negative_scores\<close>.\<close>

fun sentiment_loop ::
  "string \<Rightarrow> paper list \<Rightarrow> real list \<Rightarrow> real list \<Rightarrow> py_exception + real list \<times> real list" where
  "sentiment_loop q [] positive_scores negative_scores = Inr (positive_scores, negative_scores)"
| "sentiment_loop q (p # ps) positive_scores negative_scores =
     (case ml_sentiment_analysis p q of
        Inl e \<Rightarrow> Inl e
      | Inr sentiment_score \<Rightarrow>
         (let confidence_weight = ml_summary_confidence p
          in if sentiment_score > 1 / 10
             then sentiment_loop q ps
                    (positive_scores @ [sentiment_score * confidence_weight]) negative_scores
             else if sentiment_score < - (1 / 10)
             then sentiment_loop q ps positive_scores
                    (negative_scores @ [\<bar>sentiment_score\<bar> * confidence_weight])
             else sentiment_loop q ps positive_scores negative_scores))"

definition positive_percentage :: "real list \<Rightarrow> real list \<Rightarrow> real" where
  "positive_percentage positive_scores negative_scores =
     (let total_weighted_positive = sum_list positive_scores;
          total_weighted_negative = sum_list negative_scores;
          total_weight = total_weighted_positive + total_weighted_negative
      in if total_weight > 0 then (total_weighted_positive / total_weight) * 100 else 50)"

text \<open>The chain of \<open>if\<close>/\<open>elif\<close> that names the consensus.\<close>

definition determine_consensus :: "real \<Rightarrow> real \<Rightarrow> string" where
  "determine_consensus pct avg_confidence =
     (if pct \<ge> STRONG_POSITIVE_THRESHOLD \<and> avg_confidence > HIGH_CONFIDENCE_THRESHOLD - 1 / 10
      then ''strong_positive''
      else if pct \<ge> MODERATE_POSITIVE_THRESHOLD \<and> avg_confidence > MEDIUM_CONFIDENCE_THRESHOLD
      then ''moderate_positive''
      else if pct \<le> STRONG_NEGATIVE_THRESHOLD \<and> avg_confidence > HIGH_CONFIDENCE_THRESHOLD - 1 / 10
      then ''strong_negative''
      else if pct \<le> MODERATE_NEGATIVE_THRESHOLD \<and> avg_confidence > MEDIUM_CONFIDENCE_THRESHOLD
      then ''moderate_negative''
      else ''mixed'')"

text \<open>
  The dictionary that \<open>generate_ml_consensus\<close> returns. The keys \<open>percentage\<close> and
  \<open>total_papers\<close> are absent from the two short results; \<open>ml_insights\<close> is a dictionary,
  kept as the list of its items. The key \<open>explanation\<close>, a text formatted from the other
  values, is left out.
\<close>

record consensus_result =
  consensus :: string
  percentage :: "real option"
  confidence :: real
  total_papers :: "nat option"
  ml_insights :: "(string \<times> real) list"

definition short_result :: "string \<Rightarrow> consensus_result" where
  "short_result verdict =
     \<lparr>consensus = verdict, percentage = None, confidence = 0, total_papers = None,
      ml_insights = []\<rparr>"

definition consensus_try :: "paper list \<Rightarrow> string \<Rightarrow> py_exception + consensus_result" where
  "consensus_try papers research_question =
     (case sentiment_loop research_question papers [] [] of
        Inl e \<Rightarrow> Inl e
      | Inr (positive_scores, negative_scores) \<Rightarrow>
         (let pct = positive_percentage positive_scores negative_scores;
              avg_confidence = np_mean (map ml_summary_confidence papers)
          in case those (map citation_count papers) of
               None \<Rightarrow> Inl TypeError
             | Some counts \<Rightarrow>
                Inr \<lparr>consensus = determine_consensus pct avg_confidence,
                     percentage = Some (py_round pct 1),
                     confidence = py_round avg_confidence 2,
                     total_papers = Some (length papers),
                     ml_insights =
                       [(''avg_relevance_score'', np_mean (map ml_relevance_score papers)),
                        (''high_confidence_papers'',
                           real (length (filter (\<lambda>p. ml_summary_confidence p
                                                    > HIGH_CONFIDENCE_THRESHOLD) papers))),
                        (''recent_papers_ratio'',
                           real (length (filter (\<lambda>p. year p \<ge> RECENT_YEAR_THRESHOLD) papers))
                             / real (length papers)),
                        (''avg_citation_impact'', np_mean (map real_of_int counts))]\<rparr>))"

definition generate_ml_consensus :: "paper list \<Rightarrow> string \<Rightarrow> consensus_result" where
  "generate_ml_consensus papers research_question =
     (if papers = [] then short_result ''insufficient_data''
      else case consensus_try papers research_question of
             Inr result \<Rightarrow> result
           | Inl e \<Rightarrow> short_result ''error'')"


section \<open>The specification's reading of two steps\<close>

text \<open>
  The decision table as the specification prints it, with its literal thresholds. It is
  compared below with \<^const>\<open>determine_consensus\<close>, which is the code.
\<close>

definition spec_decision_table :: "real \<Rightarrow> real \<Rightarrow> string" where
  "spec_decision_table pct avg_conf =
     (if pct \<ge> 70 \<and> avg_conf > 6 / 10 then ''strong_positive''
      else if pct \<ge> 55 \<and> avg_conf > 5 / 10 then ''moderate_positive''
      else if pct \<le> 30 \<and> avg_conf > 6 / 10 then ''strong_negative''
      else if pct \<le> 45 \<and> avg_conf > 5 / 10 then ''moderate_negative''
      else ''mixed'')"

text \<open>
  A polarity counter that counts occurrences: every position of the text at which an
  indicator starts adds 2. It is compared below with \<^const>\<open>indicator_score\<close>, which is
  the code.
\<close>

fun occurrences :: "string \<Rightarrow> string \<Rightarrow> nat" where
  "occurrences t [] = (if t = [] then 1 else 0)"
| "occurrences t (c # s) = (if startswith (c # s) t then 1 else 0) + occurrences t s"

definition spec_occurrence_score :: "string list \<Rightarrow> string \<Rightarrow> int" where
  "spec_occurrence_score indicators abstract_lower =
     sum_list (map (\<lambda>indicator. 2 * int (occurrences indicator abstract_lower)) indicators)"

definition spec_sentiment :: "paper \<Rightarrow> real" where
  "spec_sentiment p =
     tanh (real_of_int (spec_occurrence_score POSITIVE_INDICATORS (lower (abstract p))
                        - spec_occurrence_score NEGATIVE_INDICATORS (lower (abstract p)))
             * ml_relevance_score p
             * (1 + min (real_of_int (the (citation_count p)) / 100) 1) / 10)"


section \<open>Abbreviations for the statements\<close>

text \<open>The sentiment score of a paper whose analysis does not raise.\<close>

definition sentiment :: "string \<Rightarrow> paper \<Rightarrow> real" where
  "sentiment q p = (case ml_sentiment_analysis p q of Inr s \<Rightarrow> s | Inl e \<Rightarrow> 0)"

text \<open>The number of indicators of a list that occur in a text.\<close>

definition indicators_present :: "string list \<Rightarrow> string \<Rightarrow> nat" where
  "indicators_present indicators text = length (filter (\<lambda>indicator. py_in indicator text) indicators)"

text \<open>What scikit-learn documents of \<open>KMeans.fit_predict\<close>: the labels lie below \<open>n_clusters\<close>.\<close>

definition kmeans_labels_in_range :: "'v sklearn \<Rightarrow> bool" where
  "kmeans_labels_in_range sk =
     (\<forall>k vs ls. kmeans_fit_predict sk k vs = Inr ls \<longrightarrow> (\<forall>l \<in> set ls. 0 \<le> l \<and> l < int k))"


section \<open>Concrete inputs\<close>

definition example_paper :: "string \<Rightarrow> int option \<Rightarrow> real \<Rightarrow> real \<Rightarrow> paper" where
  "example_paper text cites relevance conf =
     \<lparr>title = ''Study'', authors = [''A. Author''], year = 2021, abstract = text, url = [],
      doi = None, venue = None, citation_count = cites, paper_id = None, pdf_url = None,
      tldr = None, fields_of_study = [], influential_citation_count = Some 0,
      ml_relevance_score = relevance, ml_cluster = - 1, ml_summary_confidence = conf\<rparr>"

text \<open>
  A stand-in for scikit-learn whose matrix rows are row numbers: the similarities are
  given, and row \<open>i\<close> gets the label \<open>i mod k\<close>.
\<close>

definition example_sklearn :: "real list \<Rightarrow> nat sklearn" where
  "example_sklearn sims =
     \<lparr>fit_transform = (\<lambda>texts. Inr [0..<length texts]),
      cosine_similarity = (\<lambda>rows query_vector. Inr (take (length rows) sims)),
      kmeans_fit_predict =
        (\<lambda>k rows. if k = 0 then Inl ValueError else Inr (map (\<lambda>i. int (i mod k)) rows))\<rparr>"

text \<open>One whose vectorizer raises, as \<open>TfidfVectorizer\<close> does on an empty vocabulary.\<close>

definition failing_sklearn :: "nat sklearn" where
  "failing_sklearn =
     \<lparr>fit_transform = (\<lambda>texts. Inl ValueError),
      cosine_similarity = (\<lambda>rows query_vector. Inl ValueError),
      kmeans_fit_predict = (\<lambda>k rows. Inl ValueError)\<rparr>"

definition new_processor :: "nat processor" where
  "new_processor = \<lparr>paper_vectors = None, papers_data = [], calls = []\<rparr>"

definition five_papers :: "paper list" where
  "five_papers =
     map (\<lambda>n. example_paper (replicate n CHR ''a'') (Some (int n)) 0 0) [150, 20, 30, 40, 50]"

definition five_similarities :: "real list" where
  "five_similarities = [8 / 10, 3 / 10, 9 / 10, 3 / 10, 1 / 10]"

text \<open>The paper of the specification's example: 200 citations, 150 characters, year 2021.\<close>

definition cited_paper :: paper where
  "cited_paper = example_paper (replicate 150 CHR ''a'') (Some 200) 0 0"

text \<open>A paper as the fetch adapter builds it from a response whose citation count is null.\<close>

definition uncounted_paper :: paper where
  "uncounted_paper = example_paper ''An effective treatment.'' None (5 / 10) (5 / 10)"

text \<open>The smallest double above 1, which a cosine similarity of unit vectors can round to.\<close>

definition overshoot :: real where
  "overshoot = 1 + 1 / 2 ^ 52"

text \<open>Papers with one positive indicator, one negative indicator, none, and one repeated.\<close>

definition effective_paper :: paper where
  "effective_paper = example_paper ''An effective treatment.'' (Some 0) 1 (65 / 100)"

definition harmful_paper :: paper where
  "harmful_paper = example_paper ''A harmful treatment.'' (Some 0) 1 (65 / 100)"

definition neutral_paper :: paper where
  "neutral_paper = example_paper ''A treatment.'' (Some 0) 1 (65 / 100)"

definition repeated_paper :: paper where
  "repeated_paper = example_paper ''Effective, and again effective.'' (Some 0) 1 (65 / 100)"


section \<open>Facts about the primitives\<close>

text \<open>The substring test holds exactly when the text splits around the pattern.\<close>

lemma startswith_iff: "startswith s t \<longleftrightarrow> (\<exists>ss. s = t @ ss)"
  by (induction s t rule: startswith.induct) auto

lemma py_in_iff: "py_in t s \<longleftrightarrow> (\<exists>ps ss. s = ps @ t @ ss)"
proof (induction s)
  case Nil
  then show ?case by auto
next
  case (Cons c s)
  show ?case
  proof
    assume "py_in t (c # s)"
    then consider "startswith (c # s) t" | "py_in t s" by auto
    then show "\<exists>ps ss. c # s = ps @ t @ ss"
    proof cases
      case 1
      then obtain ss where "c # s = t @ ss" by (auto simp: startswith_iff)
      then have "c # s = [] @ t @ ss" by simp
      then show ?thesis by blast
    next
      case 2
      then obtain ps ss where "s = ps @ t @ ss" using Cons.IH by auto
      then have "c # s = (c # ps) @ t @ ss" by simp
      then show ?thesis by blast
    qed
  next
    assume "\<exists>ps ss. c # s = ps @ t @ ss"
    then obtain ps ss where e: "c # s = ps @ t @ ss" by auto
    show "py_in t (c # s)"
    proof (cases ps)
      case Nil
      with e have "startswith (c # s) t" by (auto simp: startswith_iff)
      then show ?thesis by simp
    next
      case (Cons a ps')
      with e have "s = ps' @ t @ ss" by simp
      then have "py_in t s" using Cons.IH by blast
      then show ?thesis by simp
    qed
  qed
qed

lemma sort_reverse_descending:
  "sorted_wrt (\<lambda>a b. key a \<ge> key b) (sort_reverse key xs)"
proof -
  have "sorted (map key (sort_key key (rev xs)))" by (rule sorted_sort_key)
  then have "sorted_wrt (\<lambda>a b. key a \<le> key b) (sort_key key (rev xs))"
    by (simp add: sorted_map)
  then show ?thesis
    unfolding sort_reverse_def by (simp add: sorted_wrt_rev)
qed

lemma sort_reverse_stable:
  "filter (\<lambda>y. key y = k) (sort_reverse key xs) = filter (\<lambda>y. key y = k) xs"
proof -
  have "filter (\<lambda>y. key y = k) (sort_reverse key xs)
          = rev (filter (\<lambda>y. key y = k) (sort_key key (rev xs)))"
    unfolding sort_reverse_def by (simp add: rev_filter)
  also have "\<dots> = rev (filter (\<lambda>y. key y = k) (rev xs))"
    by (simp only: sort_key_stable)
  also have "\<dots> = filter (\<lambda>y. key y = k) xs"
    by (simp add: rev_filter)
  finally show ?thesis .
qed

lemma mset_sort_reverse: "mset (sort_reverse key xs) = mset xs"
  by (simp add: sort_reverse_def)

lemma length_sort_reverse: "length (sort_reverse key xs) = length xs"
  by (simp add: sort_reverse_def)

lemma set_sort_reverse: "set (sort_reverse key xs) = set xs"
  by (simp add: sort_reverse_def)

lemma update_paper_Inr:
  assumes "update_paper sims cls i p = Inr p'"
  obtains c where "i < length sims" "i < length cls" "citation_count p = Some c"
    "p' = p\<lparr>ml_relevance_score := sims ! i, ml_cluster := cls ! i,
            ml_summary_confidence :=
              np_mean [sims ! i, min (real_of_int c / 100) 1,
                       if abstract p \<noteq> [] \<and> length (abstract p) > 100 then 1 else 5 / 10,
                       if year p \<ge> 2015 then 1 else 7 / 10]\<rparr>"
  using assms
  by (auto simp: update_paper_def confidence_factors_def split: if_splits option.splits)

lemma update_papers_length:
  "update_papers sims cls i ps = Inr ps' \<Longrightarrow> length ps' = length ps"
  by (induction ps arbitrary: i ps') (auto split: sum.splits)

lemma update_papers_bibliographic:
  "update_papers sims cls i ps = Inr ps' \<Longrightarrow> map bibliographic ps' = map bibliographic ps"
proof (induction ps arbitrary: i ps')
  case Nil
  then show ?case by simp
next
  case (Cons p ps)
  from Cons.prems obtain q qs where q: "update_paper sims cls i p = Inr q"
    and qs: "update_papers sims cls (Suc i) ps = Inr qs" and e: "ps' = q # qs"
    by (auto split: sum.splits)
  from q have "bibliographic q = bibliographic p"
    by (elim update_paper_Inr) (simp add: bibliographic_def)
  with Cons.IH[OF qs] e show ?case by simp
qed


section \<open>The paths of \<open>process_papers\<close>\<close>

lemma process_try_Inr:
  assumes "fst (process_try sk st papers q) = Inr out"
  obtains sims cls upd where
    "update_papers sims cls 0 papers = Inr upd"
    "out = sort_reverse ml_relevance_score upd"
    "length papers > MIN_PAPERS_FOR_CLUSTERING \<longrightarrow>
       (\<exists>vs. kmeans_fit_predict sk (min MAX_CLUSTERS (length papers)) vs = Inr cls)"
    "length papers \<le> MIN_PAPERS_FOR_CLUSTERING \<longrightarrow> cls = replicate (length papers) 0"
  using assms unfolding process_try_def Let_def
  by (auto split: sum.splits if_splits prod.splits)

lemma process_papers_cases:
  obtains (empty) "papers = []" "process_papers sk st papers q = ([], st)"
  | (ranked) out where "papers \<noteq> []" "fst (process_try sk st papers q) = Inr out"
      "fst (process_papers sk st papers q) = out"
  | (failed) e where "papers \<noteq> []" "fst (process_try sk st papers q) = Inl e"
      "fst (process_papers sk st papers q) = map default_scores papers"
proof (cases "papers = []")
  case True
  then show ?thesis using empty by (simp add: process_papers_def)
next
  case False
  show ?thesis
  proof (cases "fst (process_try sk st papers q)")
    case (Inl e)
    with False have "fst (process_papers sk st papers q) = map default_scores papers"
      by (auto simp: process_papers_def split: prod.splits sum.splits)
    with False Inl show ?thesis using failed by blast
  next
    case (Inr out)
    with False have "fst (process_papers sk st papers q) = out"
      by (auto simp: process_papers_def split: prod.splits sum.splits)
    with False Inr show ?thesis using ranked by blast
  qed
qed

lemma bibliographic_default_scores: "bibliographic (default_scores p) = bibliographic p"
  by (simp add: bibliographic_def default_scores_def)

lemma process_try_scored:
  assumes "fst (process_try sk st papers q) = Inr out"
  obtains scored where "map bibliographic scored = map bibliographic papers"
    "out = sort_reverse ml_relevance_score scored"
proof -
  from assms obtain sims cls upd where u: "update_papers sims cls 0 papers = Inr upd"
    and o: "out = sort_reverse ml_relevance_score upd"
    by (elim process_try_Inr)
  from update_papers_bibliographic[OF u] o show ?thesis using that by blast
qed

text \<open>
  Claim C6. The list that \<open>process_papers\<close> returns is in descending order of relevance
  score: no paper is preceded by one of a smaller score. The sort is stable: there is a
  list \<open>scored\<close> of the input papers, in the order of the input and differing from them in
  the derived attributes only, such that for every score the papers of that score appear in
  the output in the order they have in \<open>scored\<close>.
\<close>

theorem process_papers_sorted_stable:
  "\<exists>scored. map bibliographic scored = map bibliographic papers
     \<and> sorted_wrt (\<lambda>a b. ml_relevance_score a \<ge> ml_relevance_score b)
         (fst (process_papers sk st papers q))
     \<and> (\<forall>s. filter (\<lambda>p. ml_relevance_score p = s) (fst (process_papers sk st papers q))
            = filter (\<lambda>p. ml_relevance_score p = s) scored)"
proof (cases rule: process_papers_cases[where papers=papers and sk=sk and st=st and q=q])
  case empty
  then show ?thesis by simp
next
  case (ranked out)
  from ranked(2) obtain scored where b: "map bibliographic scored = map bibliographic papers"
    and o: "out = sort_reverse ml_relevance_score scored"
    by (elim process_try_scored)
  have "sorted_wrt (\<lambda>a b. ml_relevance_score a \<ge> ml_relevance_score b) out"
    unfolding o by (rule sort_reverse_descending)
  moreover have "\<forall>s. filter (\<lambda>p. ml_relevance_score p = s) out
                   = filter (\<lambda>p. ml_relevance_score p = s) scored"
    unfolding o by (simp add: sort_reverse_stable)
  ultimately show ?thesis using b ranked(3) by auto
next
  case (failed e)
  let ?d = "map default_scores papers"
  have "map bibliographic ?d = map bibliographic papers"
    by (simp add: bibliographic_default_scores)
  moreover have "sorted_wrt (\<lambda>a b. ml_relevance_score a \<ge> ml_relevance_score b) ?d"
    by (simp add: sorted_wrt_map default_scores_def sorted_wrt_iff_nth_less)
  ultimately have "map bibliographic ?d = map bibliographic papers
      \<and> sorted_wrt (\<lambda>a b. ml_relevance_score a \<ge> ml_relevance_score b) ?d
      \<and> (\<forall>s. filter (\<lambda>p. ml_relevance_score p = s) ?d
             = filter (\<lambda>p. ml_relevance_score p = s) ?d)"
    by blast
  then show ?thesis unfolding failed(3) by (rule exI)
qed

text \<open>
  Claim C10. On every path (empty input, ranked result, fallback after an exception) the
  papers returned are the input papers, each once: their bibliographic parts form the same
  multiset, and the output is as long as the input.
\<close>

theorem process_papers_permutation:
  "mset (map bibliographic (fst (process_papers sk st papers q))) = mset (map bibliographic papers)
   \<and> length (fst (process_papers sk st papers q)) = length papers"
proof (cases rule: process_papers_cases[where papers=papers and sk=sk and st=st and q=q])
  case empty
  then show ?thesis by simp
next
  case (ranked out)
  from ranked(2) obtain scored where b: "map bibliographic scored = map bibliographic papers"
    and o: "out = sort_reverse ml_relevance_score scored"
    by (elim process_try_scored)
  have "mset (map bibliographic out) = mset (map bibliographic scored)"
    unfolding o by (simp add: mset_sort_reverse)
  moreover have "length out = length scored"
    unfolding o by (rule length_sort_reverse)
  moreover from b have "length scored = length papers"
    by (metis length_map)
  ultimately show ?thesis using b ranked(3) by simp
next
  case (failed e)
  have "map bibliographic (map default_scores papers) = map bibliographic papers"
    by (simp add: bibliographic_default_scores)
  then have "mset (map bibliographic (map default_scores papers)) = mset (map bibliographic papers)"
    by (simp only:)
  then show ?thesis unfolding failed(3) by simp
qed


section \<open>Cluster ids\<close>

lemma update_papers_elem:
  assumes "update_papers sims cls i ps = Inr ps'" "p' \<in> set ps'"
  obtains j p where "p \<in> set ps" "i + j < length sims" "i + j < length cls"
    "update_paper sims cls (i + j) p = Inr p'"
  using assms
proof (induction ps arbitrary: i ps' thesis)
  case Nil
  then show ?case by simp
next
  case (Cons a ps)
  from Cons.prems(2) obtain q qs where q: "update_paper sims cls i a = Inr q"
    and qs: "update_papers sims cls (Suc i) ps = Inr qs" and e: "ps' = q # qs"
    by (auto split: sum.splits)
  from Cons.prems(3) e consider "p' = q" | "p' \<in> set qs" by auto
  then show ?case
  proof cases
    case 1
    from q have "i < length sims" "i < length cls" by (auto elim: update_paper_Inr)
    with q 1 show ?thesis by (intro Cons.prems(1)[of a 0]) simp_all
  next
    case 2
    show ?thesis
    proof (rule Cons.IH[OF _ qs 2])
      fix j p
      assume "p \<in> set ps" "Suc i + j < length sims" "Suc i + j < length cls"
        "update_paper sims cls (Suc i + j) p = Inr p'"
      then show thesis by (intro Cons.prems(1)[of p "Suc j"]) simp_all
    qed
  qed
qed

lemma process_try_elem:
  assumes "fst (process_try sk st papers q) = Inr out" "p' \<in> set out"
  obtains sims cls j p where "p \<in> set papers" "j < length sims" "j < length cls"
    "update_paper sims cls j p = Inr p'"
    "length papers > MIN_PAPERS_FOR_CLUSTERING \<longrightarrow>
       (\<exists>vs. kmeans_fit_predict sk (min MAX_CLUSTERS (length papers)) vs = Inr cls)"
    "length papers \<le> MIN_PAPERS_FOR_CLUSTERING \<longrightarrow> cls = replicate (length papers) 0"
proof -
  from assms(1) obtain sims cls upd where u: "update_papers sims cls 0 papers = Inr upd"
    and o: "out = sort_reverse ml_relevance_score upd"
    and k: "length papers > MIN_PAPERS_FOR_CLUSTERING \<longrightarrow>
       (\<exists>vs. kmeans_fit_predict sk (min MAX_CLUSTERS (length papers)) vs = Inr cls)"
    and z: "length papers \<le> MIN_PAPERS_FOR_CLUSTERING \<longrightarrow> cls = replicate (length papers) 0"
    by (rule process_try_Inr)
  from assms(2) o have "p' \<in> set upd" by (simp add: set_sort_reverse)
  then obtain j p where "p \<in> set papers" "0 + j < length sims"
    "0 + j < length cls" "update_paper sims cls (0 + j) p = Inr p'"
    by (rule update_papers_elem[OF u])
  with k z show ?thesis by (intro that[of p j sims cls]) simp_all
qed

text \<open>
  Claim C7. With at most \<open>MIN_PAPERS_FOR_CLUSTERING = 4\<close> papers every cluster id in the
  output is 0. With more, and a \<open>KMeans\<close> whose labels lie below \<open>n_clusters\<close>, every
  cluster id lies in \<open>[0, min(K, N))\<close> for \<open>K = MAX_CLUSTERS = 3\<close>. The labels are a function
  of the call, as they are under a fixed seed.
\<close>

theorem cluster_ids_in_range:
  assumes "kmeans_labels_in_range sk" "p \<in> set (fst (process_papers sk st papers q))"
  shows "MIN_PAPERS_FOR_CLUSTERING = 4 \<and> MAX_CLUSTERS = 3
     \<and> (length papers \<le> MIN_PAPERS_FOR_CLUSTERING \<longrightarrow> ml_cluster p = 0)
     \<and> (length papers > MIN_PAPERS_FOR_CLUSTERING \<longrightarrow>
          0 \<le> ml_cluster p \<and> ml_cluster p < int (min MAX_CLUSTERS (length papers)))"
proof (cases rule: process_papers_cases[where papers=papers and sk=sk and st=st and q=q])
  case empty
  with assms(2) show ?thesis by simp
next
  case (ranked out)
  with assms(2) have "p \<in> set out" by simp
  then obtain sims cls j p0 where
    j: "j < length cls" and u: "update_paper sims cls j p0 = Inr p"
    and k: "length papers > MIN_PAPERS_FOR_CLUSTERING \<longrightarrow>
       (\<exists>vs. kmeans_fit_predict sk (min MAX_CLUSTERS (length papers)) vs = Inr cls)"
    and z: "length papers \<le> MIN_PAPERS_FOR_CLUSTERING \<longrightarrow> cls = replicate (length papers) 0"
    by (rule process_try_elem[OF ranked(2)])
  from u have c: "ml_cluster p = cls ! j" by (auto elim: update_paper_Inr)
  have small: "ml_cluster p = 0" if "length papers \<le> MIN_PAPERS_FOR_CLUSTERING"
  proof -
    from that z have "cls = replicate (length papers) 0" by simp
    with j c show ?thesis by simp
  qed
  have large: "0 \<le> ml_cluster p \<and> ml_cluster p < int (min MAX_CLUSTERS (length papers))"
    if "length papers > MIN_PAPERS_FOR_CLUSTERING"
  proof -
    from that k obtain vs where
      "kmeans_fit_predict sk (min MAX_CLUSTERS (length papers)) vs = Inr cls" by blast
    with assms(1) have "\<forall>l \<in> set cls. 0 \<le> l \<and> l < int (min MAX_CLUSTERS (length papers))"
      unfolding kmeans_labels_in_range_def by blast
    moreover from j have "cls ! j \<in> set cls" by simp
    ultimately show ?thesis using c by simp
  qed
  from small large show ?thesis
    by (simp add: MIN_PAPERS_FOR_CLUSTERING_def MAX_CLUSTERS_def)
next
  case (failed e)
  with assms(2) have "ml_cluster p = 0" by (auto simp: default_scores_def)
  with failed(1) show ?thesis
    by (cases papers) (simp_all add: MIN_PAPERS_FOR_CLUSTERING_def MAX_CLUSTERS_def)
qed

theorem cluster_ids_in_range_witness:
  "hd (fst (process_papers (example_sklearn five_similarities) new_processor five_papers ''q''))
       \<in> set (fst (process_papers (example_sklearn five_similarities) new_processor five_papers ''q''))
   \<and> length five_papers > MIN_PAPERS_FOR_CLUSTERING
   \<and> ml_cluster (hd (fst (process_papers (example_sklearn five_similarities) new_processor
                            five_papers ''q''))) = 2
   \<and> hd (fst (process_papers (example_sklearn five_similarities) new_processor [cited_paper] ''q''))
       \<in> set (fst (process_papers (example_sklearn five_similarities) new_processor [cited_paper] ''q''))
   \<and> length [cited_paper] \<le> MIN_PAPERS_FOR_CLUSTERING
   \<and> ml_cluster (hd (fst (process_papers (example_sklearn five_similarities) new_processor
                            [cited_paper] ''q''))) = 0"
proof -
  let ?sk = "example_sklearn five_similarities"
  let ?five = "fst (process_papers ?sk new_processor five_papers ''q'')"
  let ?one = "fst (process_papers ?sk new_processor [cited_paper] ''q'')"
  have k: "kmeans_labels_in_range ?sk"
    by (auto simp: kmeans_labels_in_range_def example_sklearn_def)
  have m5: "hd ?five \<in> set ?five" by code_simp
  have m1: "hd ?one \<in> set ?one" by code_simp
  have l5: "length five_papers > MIN_PAPERS_FOR_CLUSTERING"
    by (simp add: five_papers_def MIN_PAPERS_FOR_CLUSTERING_def)
  have l1: "length [cited_paper] \<le> MIN_PAPERS_FOR_CLUSTERING"
    by (simp add: MIN_PAPERS_FOR_CLUSTERING_def)
  have c5: "ml_cluster (hd ?five) = 2" by code_simp
  from cluster_ids_in_range[OF k m1] l1 have "ml_cluster (hd ?one) = 0" by simp
  moreover from cluster_ids_in_range[OF k m5] l5 c5
  have "0 \<le> ml_cluster (hd ?five) \<and> ml_cluster (hd ?five) < int (min MAX_CLUSTERS (length five_papers))"
    by simp
  ultimately show ?thesis using m5 m1 l5 l1 c5 by simp
qed


section \<open>Confidence, failures and the empty list\<close>

lemma np_mean_four: "np_mean [a, b, c, d] = (a + b + c + d) / 4"
  by (simp add: np_mean_def)

text \<open>
  Claim C4. When the \<open>try\<close> block of \<open>process_papers\<close> completes, the confidence score of
  every paper it returns is the arithmetic mean of four factors: the paper's relevance
  score, its citation count over 100 capped at 1, 1 for an abstract of more than 100
  characters and 0.5 otherwise, 1 for a year from 2015 on and 0.7 otherwise. For relevance
  0.8, 200 citations, 150 characters and the year 2021 the loop body stores 0.95.
\<close>

theorem confidence_is_mean_of_four_factors:
  "(fst (process_try sk st papers q) = Inr out \<and> p \<in> set out \<longrightarrow>
      (\<exists>c. citation_count p = Some c
         \<and> ml_summary_confidence p =
             (ml_relevance_score p + min (real_of_int c / 100) 1
                + (if length (abstract p) > 100 then 1 else 5 / 10)
                + (if year p \<ge> 2015 then 1 else 7 / 10)) / 4))
   \<and> (i < length sims \<and> i < length cls \<and> sims ! i = 8 / 10 \<and> citation_count p0 = Some 200
         \<and> length (abstract p0) = 150 \<and> year p0 = 2021 \<longrightarrow>
      (\<exists>p'. update_paper sims cls i p0 = Inr p' \<and> ml_summary_confidence p' = 95 / 100))"
proof (intro conjI impI)
  assume a: "fst (process_try sk st papers q) = Inr out \<and> p \<in> set out"
  then have "p \<in> set out" by simp
  then obtain sims' cls' j p1 where u: "update_paper sims' cls' j p1 = Inr p"
    by (rule process_try_elem[OF conjunct1[OF a]])
  from u obtain c where c: "citation_count p1 = Some c"
    and p: "p = p1\<lparr>ml_relevance_score := sims' ! j, ml_cluster := cls' ! j,
            ml_summary_confidence :=
              np_mean [sims' ! j, min (real_of_int c / 100) 1,
                       if abstract p1 \<noteq> [] \<and> length (abstract p1) > 100 then 1 else 5 / 10,
                       if year p1 \<ge> 2015 then 1 else 7 / 10]\<rparr>"
    by (rule update_paper_Inr)
  have l: "(abstract p1 \<noteq> [] \<and> length (abstract p1) > 100) = (length (abstract p1) > 100)"
    by auto
  from c p have "citation_count p = Some c" by simp
  moreover from p have "ml_summary_confidence p =
             (ml_relevance_score p + min (real_of_int c / 100) 1
                + (if length (abstract p) > 100 then 1 else 5 / 10)
                + (if year p \<ge> 2015 then 1 else 7 / 10)) / 4"
    by (simp only: np_mean_four l) simp
  ultimately show "\<exists>c. citation_count p = Some c
         \<and> ml_summary_confidence p =
             (ml_relevance_score p + min (real_of_int c / 100) 1
                + (if length (abstract p) > 100 then 1 else 5 / 10)
                + (if year p \<ge> 2015 then 1 else 7 / 10)) / 4"
    by blast
next
  assume "i < length sims \<and> i < length cls \<and> sims ! i = 8 / 10 \<and> citation_count p0 = Some 200
         \<and> length (abstract p0) = 150 \<and> year p0 = 2021"
  then show "\<exists>p'. update_paper sims cls i p0 = Inr p' \<and> ml_summary_confidence p' = 95 / 100"
    by (auto simp: update_paper_def confidence_factors_def np_mean_def)
qed

theorem confidence_is_mean_of_four_factors_witness:
  "fst (process_try (example_sklearn [8 / 10]) new_processor [cited_paper] ''q'')
     = Inr [cited_paper\<lparr>ml_relevance_score := 8 / 10, ml_cluster := 0,
                        ml_summary_confidence := 95 / 100\<rparr>]
   \<and> citation_count cited_paper = Some 200 \<and> length (abstract cited_paper) = 150
   \<and> year cited_paper = 2021
   \<and> (\<exists>p'. update_paper [8 / 10] [0] 0 cited_paper = Inr p' \<and> ml_summary_confidence p' = 95 / 100)
   \<and> (\<exists>c. citation_count (cited_paper\<lparr>ml_relevance_score := 8 / 10, ml_cluster := 0,
                        ml_summary_confidence := 95 / 100\<rparr>) = Some c
        \<and> (95 / 100 :: real) = (8 / 10 + min (real_of_int c / 100) 1 + 1 + 1) / 4)"
proof -
  let ?p = "cited_paper\<lparr>ml_relevance_score := 8 / 10, ml_cluster := 0,
                        ml_summary_confidence := 95 / 100\<rparr>"
  have e: "fst (process_try (example_sklearn [8 / 10]) new_processor [cited_paper] ''q'') = Inr [?p]"
    by code_simp
  have f: "citation_count cited_paper = Some 200" "length (abstract cited_paper) = 150"
    "year cited_paper = 2021"
    by (simp_all add: cited_paper_def example_paper_def)
  have g: "(0::nat) < length [8 / 10 :: real]" "(0::nat) < length [0 :: int]"
    "[8 / 10 :: real] ! 0 = 8 / 10" by simp_all
  from confidence_is_mean_of_four_factors
         [of "example_sklearn [8 / 10]" new_processor "[cited_paper]" "''q''" "[?p]" ?p
             0 "[8 / 10]" "[0]" cited_paper]
  show ?thesis using e f g by simp
qed

text \<open>
  Claim C9. No exception leaves either function. When the \<open>try\<close> block of
  \<open>process_papers\<close> raises, every input paper is returned, in the input order, with
  relevance 0.5, cluster 0 and confidence 0.5. When the \<open>try\<close> block of
  \<open>generate_ml_consensus\<close> raises, the result is the verdict \<open>error\<close> with confidence 0.0 and
  empty insights.
\<close>

theorem exceptions_do_not_propagate:
  "(fst (process_try sk st papers q) = Inl e \<longrightarrow>
      fst (process_papers sk st papers q)
        = map (\<lambda>p. p\<lparr>ml_relevance_score := 5 / 10, ml_cluster := 0,
                       ml_summary_confidence := 5 / 10\<rparr>) papers)
   \<and> (papers \<noteq> [] \<and> consensus_try papers q = Inl e' \<longrightarrow>
      generate_ml_consensus papers q
        = \<lparr>consensus = ''error'', percentage = None, confidence = 0, total_papers = None,
           ml_insights = []\<rparr>)"
proof (intro conjI impI)
  assume a: "fst (process_try sk st papers q) = Inl e"
  have d: "default_scores = (\<lambda>p. p\<lparr>ml_relevance_score := 5 / 10, ml_cluster := 0,
                       ml_summary_confidence := 5 / 10\<rparr>)"
    by (rule ext) (simp add: default_scores_def)
  show "fst (process_papers sk st papers q)
        = map (\<lambda>p. p\<lparr>ml_relevance_score := 5 / 10, ml_cluster := 0,
                       ml_summary_confidence := 5 / 10\<rparr>) papers"
  proof (cases rule: process_papers_cases[where papers=papers and sk=sk and st=st and q=q])
    case empty
    then show ?thesis by simp
  next
    case (ranked out)
    with a show ?thesis by simp
  next
    case (failed e)
    then show ?thesis by (simp only: d)
  qed
next
  assume "papers \<noteq> [] \<and> consensus_try papers q = Inl e'"
  then show "generate_ml_consensus papers q
        = \<lparr>consensus = ''error'', percentage = None, confidence = 0, total_papers = None,
           ml_insights = []\<rparr>"
    by (simp add: generate_ml_consensus_def short_result_def)
qed

theorem exceptions_do_not_propagate_witness:
  "fst (process_try failing_sklearn new_processor [cited_paper, uncounted_paper] ''q'') = Inl ValueError
   \<and> fst (process_try (example_sklearn five_similarities) new_processor
            [cited_paper, uncounted_paper] ''q'') = Inl TypeError
   \<and> fst (process_papers (example_sklearn five_similarities) new_processor
            [cited_paper, uncounted_paper] ''q'')
       = [cited_paper\<lparr>ml_relevance_score := 5 / 10, ml_cluster := 0, ml_summary_confidence := 5 / 10\<rparr>,
          uncounted_paper\<lparr>ml_relevance_score := 5 / 10, ml_cluster := 0,
                          ml_summary_confidence := 5 / 10\<rparr>]
   \<and> [cited_paper, uncounted_paper] \<noteq> []
   \<and> consensus_try [cited_paper, uncounted_paper] ''q'' = Inl TypeError
   \<and> consensus (generate_ml_consensus [cited_paper, uncounted_paper] ''q'') = ''error''
   \<and> confidence (generate_ml_consensus [cited_paper, uncounted_paper] ''q'') = 0
   \<and> ml_insights (generate_ml_consensus [cited_paper, uncounted_paper] ''q'') = []"
proof -
  have a: "fst (process_try failing_sklearn new_processor [cited_paper, uncounted_paper] ''q'')
             = Inl ValueError"
    by (simp add: process_try_def failing_sklearn_def)
  have b: "fst (process_try (example_sklearn five_similarities) new_processor
            [cited_paper, uncounted_paper] ''q'') = Inl TypeError"
    by code_simp
  have c: "consensus_try [cited_paper, uncounted_paper] ''q'' = Inl TypeError"
    by (simp add: consensus_try_def ml_sentiment_analysis_def cited_paper_def uncounted_paper_def
          example_paper_def Let_def)
  from exceptions_do_not_propagate
         [of "example_sklearn five_similarities" new_processor "[cited_paper, uncounted_paper]"
             "''q''" TypeError TypeError]
  show ?thesis using a b c by simp
qed

text \<open>
  Claim C8. On the empty list \<open>process_papers\<close> returns the empty list and leaves the
  processor as it was: no library call is added to the trace, so neither the vectorizer nor
  the scorer is invoked. \<open>generate_ml_consensus\<close> returns the verdict \<open>insufficient_data\<close>
  with confidence 0.0 and empty insights.
\<close>

theorem empty_paper_list:
  "process_papers sk st [] q = ([], st)
   \<and> calls (snd (process_papers sk st [] q)) = calls st
   \<and> paper_vectors (snd (process_papers sk st [] q)) = paper_vectors st
   \<and> generate_ml_consensus [] q
       = \<lparr>consensus = ''insufficient_data'', percentage = None, confidence = 0,
          total_papers = None, ml_insights = []\<rparr>"
  by (simp add: process_papers_def generate_ml_consensus_def short_result_def)

lemma process_papers_calls_vectorizer:
  "papers \<noteq> [] \<Longrightarrow>
     \<exists>cs. calls (snd (process_papers sk st papers q)) = calls st @ FitTransform # cs"
  unfolding process_papers_def process_try_def Let_def
  by (auto split: sum.splits prod.splits if_splits)


section \<open>Scores outside the unit interval\<close>

text \<open>
  Claim C2 (evaluation of the code). \<open>process_papers\<close> stores the similarity as it comes:
  for a similarity of \<open>1 + 2^-52\<close> the stored relevance score, and with it the confidence
  score, exceeds 1. \<open>Paper.__post_init__\<close> would have clamped both.
\<close>

theorem relevance_stored_unclamped:
  "fst (process_papers (example_sklearn [overshoot]) new_processor [cited_paper] ''q'')
     = [cited_paper\<lparr>ml_relevance_score := overshoot, ml_cluster := 0,
                     ml_summary_confidence := (overshoot + 3) / 4\<rparr>]
   \<and> 1 < overshoot \<and> 1 < (overshoot + 3) / 4
   \<and> ml_relevance_score (post_init (cited_paper\<lparr>ml_relevance_score := overshoot, ml_cluster := 0,
                     ml_summary_confidence := (overshoot + 3) / 4\<rparr>)) = 1
   \<and> ml_summary_confidence (post_init (cited_paper\<lparr>ml_relevance_score := overshoot,
                     ml_cluster := 0, ml_summary_confidence := (overshoot + 3) / 4\<rparr>)) = 1"
proof -
  have "fst (process_papers (example_sklearn [overshoot]) new_processor [cited_paper] ''q'')
     = [cited_paper\<lparr>ml_relevance_score := overshoot, ml_cluster := 0,
                     ml_summary_confidence := (overshoot + 3) / 4\<rparr>]"
    by code_simp
  moreover have "1 < overshoot" "1 < (overshoot + 3) / 4"
    by (simp_all add: overshoot_def)
  ultimately show ?thesis by (simp add: post_init_def)
qed


section \<open>The consensus\<close>

lemma determine_consensus_eq_spec: "determine_consensus pct a = spec_decision_table pct a"
  by (simp add: determine_consensus_def spec_decision_table_def STRONG_POSITIVE_THRESHOLD_def
        MODERATE_POSITIVE_THRESHOLD_def STRONG_NEGATIVE_THRESHOLD_def
        MODERATE_NEGATIVE_THRESHOLD_def HIGH_CONFIDENCE_THRESHOLD_def
        MEDIUM_CONFIDENCE_THRESHOLD_def)

lemma ml_sentiment_analysis_Some:
  "citation_count p = Some c \<Longrightarrow> ml_sentiment_analysis p q = Inr (sentiment q p)"
  by (simp add: sentiment_def ml_sentiment_analysis_def Let_def)

lemma ml_sentiment_analysis_None:
  "citation_count p = None \<Longrightarrow> ml_sentiment_analysis p q = Inl TypeError"
  by (simp add: ml_sentiment_analysis_def Let_def)

lemma ml_sentiment_analysis_Inr:
  "ml_sentiment_analysis p q = Inr s \<Longrightarrow> s = sentiment q p \<and> citation_count p \<noteq> None"
  by (cases "citation_count p") (simp_all add: ml_sentiment_analysis_None sentiment_def)

lemma sentiment_loop_total:
  "\<forall>p \<in> set ps. citation_count p \<noteq> None \<Longrightarrow>
     \<exists>pos neg. sentiment_loop q ps pos0 neg0 = Inr (pos, neg)"
proof (induction ps arbitrary: pos0 neg0)
  case Nil
  then show ?case by simp
next
  case (Cons p ps)
  then obtain c where "citation_count p = Some c" by auto
  then have "ml_sentiment_analysis p q = Inr (sentiment q p)"
    by (rule ml_sentiment_analysis_Some)
  moreover from Cons have "\<And>a b. \<exists>pos neg. sentiment_loop q ps a b = Inr (pos, neg)" by simp
  ultimately show ?case by (simp add: Let_def)
qed

lemma sentiment_loop_buckets:
  "sentiment_loop q ps pos0 neg0 = Inr (pos, neg) \<Longrightarrow>
     pos = pos0 @ map (\<lambda>p. sentiment q p * ml_summary_confidence p)
                      (filter (\<lambda>p. sentiment q p > 1 / 10) ps)
     \<and> neg = neg0 @ map (\<lambda>p. \<bar>sentiment q p\<bar> * ml_summary_confidence p)
                        (filter (\<lambda>p. sentiment q p < - (1 / 10)) ps)
     \<and> (\<forall>p \<in> set ps. citation_count p \<noteq> None)"
proof (induction ps arbitrary: pos0 neg0)
  case Nil
  then show ?case by simp
next
  case (Cons p ps)
  from Cons.prems obtain s where s: "ml_sentiment_analysis p q = Inr s"
    by (cases "ml_sentiment_analysis p q") simp_all
  then have e: "s = sentiment q p" and c: "citation_count p \<noteq> None"
    using ml_sentiment_analysis_Inr by blast+
  consider "s > 1 / 10" | "\<not> s > 1 / 10" "s < - (1 / 10)" | "\<not> s > 1 / 10" "\<not> s < - (1 / 10)"
    by blast
  then show ?case
  proof cases
    case 1
    with Cons.prems s have
      "sentiment_loop q ps (pos0 @ [s * ml_summary_confidence p]) neg0 = Inr (pos, neg)"
      by (simp add: Let_def)
    from Cons.IH[OF this] 1 e c show ?thesis by simp
  next
    case 2
    with Cons.prems s have
      "sentiment_loop q ps pos0 (neg0 @ [\<bar>s\<bar> * ml_summary_confidence p]) = Inr (pos, neg)"
      by (simp add: Let_def)
    from Cons.IH[OF this] 2 e c show ?thesis by simp
  next
    case 3
    with Cons.prems s have "sentiment_loop q ps pos0 neg0 = Inr (pos, neg)"
      by (simp add: Let_def)
    from Cons.IH[OF this] 3 e c show ?thesis by simp
  qed
qed

lemma those_citation_counts:
  "\<forall>p \<in> set ps. citation_count p \<noteq> None \<Longrightarrow> \<exists>counts. those (map citation_count ps) = Some counts"
  by (induction ps) auto

lemma consensus_try_Inr:
  assumes "sentiment_loop q papers [] [] = Inr (pos, neg)"
  shows "\<exists>r. consensus_try papers q = Inr r
     \<and> consensus r = determine_consensus (positive_percentage pos neg)
                       (np_mean (map ml_summary_confidence papers))
     \<and> percentage r = Some (py_round (positive_percentage pos neg) 1)"
proof -
  from sentiment_loop_buckets[OF assms] have "\<forall>p \<in> set papers. citation_count p \<noteq> None"
    by simp
  then obtain counts where "those (map citation_count papers) = Some counts"
    using those_citation_counts by blast
  with assms show ?thesis
    by (simp add: consensus_try_def Let_def)
qed

lemma tanh_fifth: "tanh (1 / 5 :: real) > 1 / 10"
proof -
  define y :: real where "y = exp (- (2 / 5))"
  have "exp (2 / 5 :: real) \<ge> 1 + 2 / 5" by (rule exp_ge_add_one_self)
  moreover have "y * exp (2 / 5) = 1"
    unfolding y_def by (simp add: exp_minus)
  moreover have p: "0 < y" unfolding y_def by simp
  ultimately have "y * (1 + 2 / 5) \<le> 1"
    by (metis mult_left_mono less_imp_le)
  then have e: "y \<le> 5 / 7" by simp
  have "(1 - y) / (1 + y) > 1 / 10"
    using e p by (simp add: field_simps)
  moreover have "tanh (1 / 5 :: real) = (1 - y) / (1 + y)"
    unfolding y_def by (simp add: tanh_real_altdef)
  ultimately show ?thesis by simp
qed

lemma indicator_score_present:
  "indicator_score indicators text = 2 * int (indicators_present indicators text)"
  unfolding indicator_score_def indicators_present_def
  by (induction indicators) auto

lemma sentiment_formula:
  "citation_count p = Some c \<Longrightarrow>
     sentiment q p =
       tanh (real_of_int (indicator_score POSITIVE_INDICATORS (lower (abstract p))
                          - indicator_score NEGATIVE_INDICATORS (lower (abstract p)))
               * ml_relevance_score p * (1 + min (real_of_int c / 100) 1) / 10)"
  by (simp add: sentiment_def ml_sentiment_analysis_def Let_def)

lemma effective_scores:
  "indicator_score POSITIVE_INDICATORS (lower (abstract effective_paper)) = 2"
  "indicator_score NEGATIVE_INDICATORS (lower (abstract effective_paper)) = 0"
  by code_simp+

lemma harmful_scores:
  "indicator_score POSITIVE_INDICATORS (lower (abstract harmful_paper)) = 0"
  "indicator_score NEGATIVE_INDICATORS (lower (abstract harmful_paper)) = 2"
  by code_simp+

lemma neutral_scores:
  "indicator_score POSITIVE_INDICATORS (lower (abstract neutral_paper)) = 0"
  "indicator_score NEGATIVE_INDICATORS (lower (abstract neutral_paper)) = 0"
  by code_simp+

lemma repeated_scores:
  "indicator_score POSITIVE_INDICATORS (lower (abstract repeated_paper)) = 2"
  "indicator_score NEGATIVE_INDICATORS (lower (abstract repeated_paper)) = 0"
  "spec_occurrence_score POSITIVE_INDICATORS (lower (abstract repeated_paper)) = 4"
  "spec_occurrence_score NEGATIVE_INDICATORS (lower (abstract repeated_paper)) = 0"
  by code_simp+

lemma example_fields:
  "citation_count effective_paper = Some 0" "ml_relevance_score effective_paper = 1"
  "ml_summary_confidence effective_paper = 65 / 100"
  "citation_count harmful_paper = Some 0" "ml_relevance_score harmful_paper = 1"
  "ml_summary_confidence harmful_paper = 65 / 100"
  "citation_count neutral_paper = Some 0" "ml_relevance_score neutral_paper = 1"
  "ml_summary_confidence neutral_paper = 65 / 100"
  "citation_count repeated_paper = Some 0" "ml_relevance_score repeated_paper = 1"
  "ml_summary_confidence repeated_paper = 65 / 100"
  by (simp_all add: effective_paper_def harmful_paper_def neutral_paper_def repeated_paper_def
        example_paper_def)

lemma example_sentiments:
  "sentiment q effective_paper = tanh (1 / 5)"
  "sentiment q harmful_paper = - tanh (1 / 5)"
  "sentiment q neutral_paper = 0"
  "sentiment q repeated_paper = tanh (1 / 5)"
  by (simp_all add: sentiment_formula[OF example_fields(1)] sentiment_formula[OF example_fields(4)]
        sentiment_formula[OF example_fields(7)] sentiment_formula[OF example_fields(10)]
        effective_scores harmful_scores neutral_scores repeated_scores example_fields)

lemma generate_ml_consensus_Inr:
  "papers \<noteq> [] \<Longrightarrow> consensus_try papers q = Inr r \<Longrightarrow> generate_ml_consensus papers q = r"
  by (simp add: generate_ml_consensus_def)

lemma positive_percentage_empty: "positive_percentage [] [] = 50"
  by (simp add: positive_percentage_def)

lemma py_round_50: "py_round 50 1 = 50" "py_round 50 (Suc 0) = 50"
  by (simp_all add: py_round_def)

lemma ml_sentiment_examples:
  "ml_sentiment_analysis effective_paper q = Inr (tanh (1 / 5))"
  "ml_sentiment_analysis harmful_paper q = Inr (- tanh (1 / 5))"
  "ml_sentiment_analysis neutral_paper q = Inr 0"
  "ml_sentiment_analysis repeated_paper q = Inr (tanh (1 / 5))"
  using ml_sentiment_analysis_Some[OF example_fields(1), of q]
    ml_sentiment_analysis_Some[OF example_fields(4), of q]
    ml_sentiment_analysis_Some[OF example_fields(7), of q]
    ml_sentiment_analysis_Some[OF example_fields(10), of q]
  by (simp_all add: example_sentiments)

text \<open>
  Claim C1. For a non-empty list of papers whose citation counts are integers, as the
  annotation of the field says, the verdict of \<open>generate_ml_consensus\<close> is the verdict of
  the specification's decision table at the positive percentage and the mean confidence of
  the papers. The code's chain of comparisons and the table agree everywhere, and the three
  examples evaluate as stated.
\<close>

theorem consensus_follows_decision_table:
  "(papers \<noteq> [] \<and> (\<forall>p \<in> set papers. citation_count p \<noteq> None) \<longrightarrow>
      (\<exists>pos neg. sentiment_loop q papers [] [] = Inr (pos, neg)
         \<and> consensus (generate_ml_consensus papers q)
             = spec_decision_table (positive_percentage pos neg)
                 (np_mean (map ml_summary_confidence papers))))
   \<and> (\<forall>pct avg_conf. determine_consensus pct avg_conf = spec_decision_table pct avg_conf)
   \<and> determine_consensus 72 (65 / 100) = ''strong_positive''
   \<and> determine_consensus 72 (55 / 100) = ''moderate_positive''
   \<and> determine_consensus 48 (55 / 100) = ''mixed''"
proof (intro conjI impI allI)
  assume a: "papers \<noteq> [] \<and> (\<forall>p \<in> set papers. citation_count p \<noteq> None)"
  then obtain pos neg where l: "sentiment_loop q papers [] [] = Inr (pos, neg)"
    using sentiment_loop_total by blast
  from consensus_try_Inr[OF l] obtain r where r: "consensus_try papers q = Inr r"
    and c: "consensus r = determine_consensus (positive_percentage pos neg)
                       (np_mean (map ml_summary_confidence papers))"
    by blast
  from a r have "generate_ml_consensus papers q = r"
    by (simp add: generate_ml_consensus_Inr)
  with c l show "\<exists>pos neg. sentiment_loop q papers [] [] = Inr (pos, neg)
         \<and> consensus (generate_ml_consensus papers q)
             = spec_decision_table (positive_percentage pos neg)
                 (np_mean (map ml_summary_confidence papers))"
    by (auto simp: determine_consensus_eq_spec)
next
  fix pct avg_conf
  show "determine_consensus pct avg_conf = spec_decision_table pct avg_conf"
    by (rule determine_consensus_eq_spec)
next
  show "determine_consensus 72 (65 / 100) = ''strong_positive''"
    by (simp add: determine_consensus_eq_spec spec_decision_table_def)
next
  show "determine_consensus 72 (55 / 100) = ''moderate_positive''"
    by (simp add: determine_consensus_eq_spec spec_decision_table_def)
next
  show "determine_consensus 48 (55 / 100) = ''mixed''"
    by (simp add: determine_consensus_eq_spec spec_decision_table_def)
qed

theorem consensus_follows_decision_table_witness:
  "[effective_paper] \<noteq> [] \<and> citation_count effective_paper = Some 0
   \<and> sentiment_loop ''q'' [effective_paper] [] [] = Inr ([tanh (1 / 5) * (65 / 100)], [])
   \<and> positive_percentage [tanh (1 / 5) * (65 / 100)] [] = 100
   \<and> consensus (generate_ml_consensus [effective_paper] ''q'') = ''strong_positive''"
proof -
  have h: "[effective_paper] \<noteq> [] \<and> (\<forall>p \<in> set [effective_paper]. citation_count p \<noteq> None)"
    by (simp add: example_fields)
  have l: "sentiment_loop ''q'' [effective_paper] [] [] = Inr ([tanh (1 / 5) * (65 / 100)], [])"
    using tanh_fifth by (simp add: ml_sentiment_examples example_fields)
  have "tanh (1 / 5 :: real) > 0" by simp
  then have p: "positive_percentage [tanh (1 / 5) * (65 / 100)] [] = 100"
    by (simp add: positive_percentage_def)
  have m: "np_mean (map ml_summary_confidence [effective_paper]) = 65 / 100"
    by (simp add: np_mean_def example_fields)
  from consensus_follows_decision_table[of "[effective_paper]" "''q''"] h
  obtain pos neg where "sentiment_loop ''q'' [effective_paper] [] [] = Inr (pos, neg)"
    and c: "consensus (generate_ml_consensus [effective_paper] ''q'')
             = spec_decision_table (positive_percentage pos neg)
                 (np_mean (map ml_summary_confidence [effective_paper]))"
    by blast
  with l have "pos = [tanh (1 / 5) * (65 / 100)]" "neg = []" by simp_all
  with c p m have "consensus (generate_ml_consensus [effective_paper] ''q'') = ''strong_positive''"
    by (simp add: spec_decision_table_def)
  with l p show ?thesis by (simp add: example_fields)
qed

text \<open>
  Claim C3. The positive bucket holds, in order, the confidence-weighted sentiment of the
  papers whose sentiment exceeds 0.1, the negative bucket the confidence-weighted absolute
  sentiment of those below -0.1; a paper in between adds to neither. With both buckets
  empty the positive percentage is 50, and when no paper leaves the dead zone the
  percentage reported is 50.0.
\<close>

theorem dead_zone_and_neutral_default:
  "(sentiment_loop q papers [] [] = Inr (pos, neg) \<longrightarrow>
      pos = map (\<lambda>p. sentiment q p * ml_summary_confidence p)
                (filter (\<lambda>p. sentiment q p > 1 / 10) papers)
      \<and> neg = map (\<lambda>p. \<bar>sentiment q p\<bar> * ml_summary_confidence p)
                  (filter (\<lambda>p. sentiment q p < - (1 / 10)) papers)
      \<and> (pos = [] \<and> neg = [] \<longrightarrow> positive_percentage pos neg = 50))
   \<and> (papers \<noteq> []
        \<and> (\<forall>p \<in> set papers. citation_count p \<noteq> None
               \<and> - (1 / 10) \<le> sentiment q p \<and> sentiment q p \<le> 1 / 10) \<longrightarrow>
      percentage (generate_ml_consensus papers q) = Some 50)"
proof (intro conjI impI)
  assume l: "sentiment_loop q papers [] [] = Inr (pos, neg)"
  from sentiment_loop_buckets[OF l]
  show "pos = map (\<lambda>p. sentiment q p * ml_summary_confidence p)
                (filter (\<lambda>p. sentiment q p > 1 / 10) papers)"
    and "neg = map (\<lambda>p. \<bar>sentiment q p\<bar> * ml_summary_confidence p)
                  (filter (\<lambda>p. sentiment q p < - (1 / 10)) papers)"
    by simp_all
next
  assume "pos = [] \<and> neg = []"
  then show "positive_percentage pos neg = 50"
    by (simp add: positive_percentage_empty)
next
  assume a: "papers \<noteq> []
        \<and> (\<forall>p \<in> set papers. citation_count p \<noteq> None
               \<and> - (1 / 10) \<le> sentiment q p \<and> sentiment q p \<le> 1 / 10)"
  then obtain pos neg where l: "sentiment_loop q papers [] [] = Inr (pos, neg)"
    using sentiment_loop_total[of papers q "[]" "[]"] by blast
  from a have "filter (\<lambda>p. sentiment q p > 1 / 10) papers = []"
    and "filter (\<lambda>p. sentiment q p < - (1 / 10)) papers = []"
    by (auto simp: filter_empty_conv)
  with sentiment_loop_buckets[OF l] have e: "pos = []" "neg = []" by simp_all
  from consensus_try_Inr[OF l] obtain r where r: "consensus_try papers q = Inr r"
    and p: "percentage r = Some (py_round (positive_percentage pos neg) 1)"
    by blast
  from a r have "generate_ml_consensus papers q = r"
    by (simp add: generate_ml_consensus_Inr)
  with p e show "percentage (generate_ml_consensus papers q) = Some 50"
    by (simp add: positive_percentage_empty py_round_50)
qed

theorem dead_zone_and_neutral_default_witness:
  "sentiment_loop ''q'' [effective_paper, neutral_paper, harmful_paper] [] []
     = Inr ([tanh (1 / 5) * (65 / 100)], [tanh (1 / 5) * (65 / 100)])
   \<and> filter (\<lambda>p. sentiment ''q'' p > 1 / 10) [effective_paper, neutral_paper, harmful_paper]
       = [effective_paper]
   \<and> filter (\<lambda>p. sentiment ''q'' p < - (1 / 10)) [effective_paper, neutral_paper, harmful_paper]
       = [harmful_paper]
   \<and> sentiment_loop ''q'' [neutral_paper] [] [] = Inr ([], [])
   \<and> positive_percentage [] [] = 50
   \<and> [neutral_paper] \<noteq> []
   \<and> citation_count neutral_paper = Some 0
   \<and> - (1 / 10) \<le> sentiment ''q'' neutral_paper \<and> sentiment ''q'' neutral_paper \<le> 1 / 10
   \<and> percentage (generate_ml_consensus [neutral_paper] ''q'') = Some 50"
proof -
  have t: "tanh (1 / 5 :: real) > 0" by simp
  have l3: "sentiment_loop ''q'' [effective_paper, neutral_paper, harmful_paper] [] []
     = Inr ([tanh (1 / 5) * (65 / 100)], [tanh (1 / 5) * (65 / 100)])"
    using tanh_fifth t by (simp add: ml_sentiment_examples example_fields)
  have l1: "sentiment_loop ''q'' [neutral_paper] [] [] = Inr ([], [])"
    by (simp add: ml_sentiment_examples)
  have h: "[neutral_paper] \<noteq> []
   \<and> (\<forall>p \<in> set [neutral_paper]. citation_count p \<noteq> None
          \<and> - (1 / 10) \<le> sentiment ''q'' p \<and> sentiment ''q'' p \<le> 1 / 10)"
    by (simp add: example_fields example_sentiments)
  note w3 = dead_zone_and_neutral_default
              [of "''q''" "[effective_paper, neutral_paper, harmful_paper]"
                  "[tanh (1 / 5) * (65 / 100)]" "[tanh (1 / 5) * (65 / 100)]"]
  note w1 = dead_zone_and_neutral_default[of "''q''" "[neutral_paper]" "[]" "[]"]
  from w3 l3 have f: "[tanh (1 / 5) * (65 / 100)]
       = map (\<lambda>p. sentiment ''q'' p * ml_summary_confidence p)
           (filter (\<lambda>p. sentiment ''q'' p > 1 / 10) [effective_paper, neutral_paper, harmful_paper])"
    by blast
  have f1: "filter (\<lambda>p. sentiment ''q'' p > 1 / 10) [effective_paper, neutral_paper, harmful_paper]
       = [effective_paper]"
    using tanh_fifth t by (simp add: example_sentiments)
  have f2: "filter (\<lambda>p. sentiment ''q'' p < - (1 / 10))
              [effective_paper, neutral_paper, harmful_paper] = [harmful_paper]"
    using tanh_fifth t by (simp add: example_sentiments)
  from w1 l1 h have "positive_percentage [] [] = 50"
    and "percentage (generate_ml_consensus [neutral_paper] ''q'') = Some 50"
    by blast+
  with l3 l1 f1 f2 show ?thesis by (simp add: example_fields example_sentiments)
qed


section \<open>The sentiment of one paper\<close>

text \<open>
  Claim C5, as stated, fails: occurrences are not what is counted. In the abstract
  \<open>Effective, and again effective.\<close> the indicator \<open>effective\<close> occurs twice; a counter of
  occurrences reaches 4, the code's counter 2, and the sentiment is \<open>tanh 0.2\<close>, not
  \<open>tanh 0.4\<close>.
\<close>

theorem sentiment_counts_occurrences_counterexample:
  "occurrences ''effective'' (lower (abstract repeated_paper)) = 2
   \<and> spec_occurrence_score POSITIVE_INDICATORS (lower (abstract repeated_paper)) = 4
   \<and> indicator_score POSITIVE_INDICATORS (lower (abstract repeated_paper)) = 2
   \<and> ml_sentiment_analysis repeated_paper ''q'' = Inr (tanh (1 / 5))
   \<and> spec_sentiment repeated_paper = tanh (2 / 5)
   \<and> ml_sentiment_analysis repeated_paper ''q'' \<noteq> Inr (spec_sentiment repeated_paper)"
proof -
  have o: "occurrences ''effective'' (lower (abstract repeated_paper)) = 2" by code_simp
  have s: "spec_sentiment repeated_paper = tanh (2 / 5)"
    by (simp add: spec_sentiment_def repeated_scores example_fields)
  have m: "ml_sentiment_analysis repeated_paper ''q'' = Inr (tanh (1 / 5))"
    by (rule ml_sentiment_examples)
  have "tanh (1 / 5 :: real) \<noteq> tanh (2 / 5)" by simp
  with o s m show ?thesis by (simp add: repeated_scores)
qed

text \<open>
  Claim C5, amended. For a paper whose citation count is an integer, the positive counter
  is 2 for each member of \<open>POSITIVE_INDICATORS\<close> that occurs at least once as a substring
  of the lower-cased abstract, however often it occurs, and likewise the negative counter;
  their difference is multiplied by \<open>relevance_score * (1 + min(citation_count/100, 1.0))\<close>,
  divided by 10 and passed through \<open>tanh\<close>, so the sentiment lies strictly between -1 and 1.
\<close>

theorem sentiment_counts_each_indicator_once:
  "citation_count p = Some c \<longrightarrow>
     ml_sentiment_analysis p q = Inr (sentiment q p)
     \<and> sentiment q p =
         tanh (real_of_int (2 * int (indicators_present POSITIVE_INDICATORS (lower (abstract p)))
                            - 2 * int (indicators_present NEGATIVE_INDICATORS (lower (abstract p))))
                 * ml_relevance_score p * (1 + min (real_of_int c / 100) 1) / 10)
     \<and> - 1 < sentiment q p \<and> sentiment q p < 1"
proof
  assume c: "citation_count p = Some c"
  have "ml_sentiment_analysis p q = Inr (sentiment q p)"
    using c by (rule ml_sentiment_analysis_Some)
  moreover have f: "sentiment q p =
         tanh (real_of_int (2 * int (indicators_present POSITIVE_INDICATORS (lower (abstract p)))
                            - 2 * int (indicators_present NEGATIVE_INDICATORS (lower (abstract p))))
                 * ml_relevance_score p * (1 + min (real_of_int c / 100) 1) / 10)"
    unfolding sentiment_formula[OF c] indicator_score_present by (rule refl)
  moreover have "- 1 < sentiment q p" "sentiment q p < 1"
    unfolding f by (rule tanh_real_gt_neg1, rule tanh_real_lt_1)
  ultimately show "ml_sentiment_analysis p q = Inr (sentiment q p)
     \<and> sentiment q p =
         tanh (real_of_int (2 * int (indicators_present POSITIVE_INDICATORS (lower (abstract p)))
                            - 2 * int (indicators_present NEGATIVE_INDICATORS (lower (abstract p))))
                 * ml_relevance_score p * (1 + min (real_of_int c / 100) 1) / 10)
     \<and> - 1 < sentiment q p \<and> sentiment q p < 1"
    by blast
qed

theorem sentiment_counts_each_indicator_once_witness:
  "citation_count repeated_paper = Some 0
   \<and> indicators_present POSITIVE_INDICATORS (lower (abstract repeated_paper)) = 1
   \<and> indicators_present NEGATIVE_INDICATORS (lower (abstract repeated_paper)) = 0
   \<and> ml_sentiment_analysis repeated_paper ''q'' = Inr (sentiment ''q'' repeated_paper)
   \<and> sentiment ''q'' repeated_paper = tanh (1 / 5)
   \<and> - 1 < sentiment ''q'' repeated_paper \<and> sentiment ''q'' repeated_paper < 1"
proof -
  have i: "indicators_present POSITIVE_INDICATORS (lower (abstract repeated_paper)) = 1"
    "indicators_present NEGATIVE_INDICATORS (lower (abstract repeated_paper)) = 0"
    by code_simp+
  from sentiment_counts_each_indicator_once[of repeated_paper 0 "''q''"]
  show ?thesis using i by (simp add: example_fields)
qed

end
